theory Spec2Isabelle
  imports Main
begin

section \<open>Shared value types\<close>

text \<open>
  Errors of the JavaScript runtime as values. \<open>Error m\<close> is \<open>new Error(m)\<close>;
  \<open>TypeError p\<close> is the runtime's TypeError raised when property \<open>p\<close> is read from
  \<open>null\<close> or \<open>undefined\<close> (its message text is engine defined, so only the property
  is kept); \<open>Rejected m\<close> is a failure of an external call (HTTP, environment).
\<close>

datatype error = Error string | TypeError string | Rejected string

text \<open>\<open>String(error)\<close>, as used by \<open>new Error(error)\<close>.\<close>

fun error_to_string :: "error \<Rightarrow> string" where
  "error_to_string (Error m) = ''Error: '' @ m"
| "error_to_string (TypeError p) = ''TypeError: '' @ p"
| "error_to_string (Rejected m) = m"

text \<open>
  The JavaScript values a \<open>string | null | undefined\<close> slot can hold, with the
  truthiness test of \<open>||\<close> and \<open>?:\<close> and the conversion of a template literal.
\<close>

datatype jsval = JUndefined | JNull | JStr string

fun truthy :: "jsval \<Rightarrow> bool" where
  "truthy (JStr s) = (s \<noteq> [])"
| "truthy JUndefined = False"
| "truthy JNull = False"

definition js_or :: "jsval \<Rightarrow> jsval \<Rightarrow> jsval" where
  "js_or a b = (if truthy a then a else b)"

fun js_to_string :: "jsval \<Rightarrow> string" where
  "js_to_string (JStr s) = s"
| "js_to_string JUndefined = ''undefined''"
| "js_to_string JNull = ''null''"

text \<open>The \<open>Either\<close> of fp-ts.\<close>

datatype ('e, 'a) either = Left 'e | Right 'a

section \<open>Client: the socket session (SocketContextProvider.jsx)\<close>

subsection \<open>Messages and the channel object\<close>

datatype sender = User | Chatbot

record message =
  msg_id :: "string option"
  msg_text :: string
  msg_sender :: sender

text \<open>
  The closures registered by the mount effect. The two \<open>unexpected_error\<close> closures
  (lines 49 and 57) have the same body and are one handler registered twice.
\<close>

datatype handler =
  ConnectHandler
| MessageHandler
| UnexpectedErrorHandler
| DisconnectHandler
| ConnectErrorHandler
| ConnectTimeoutHandler

text \<open>
  The socket object of socket.io-client, as far as the provider uses it: the listener
  table in registration order (\<open>on\<close> appends, duplicates are kept, \<open>off(event)\<close>
  removes every listener of that event), whether the channel is open or opening
  (\<open>connect()\<close>, \<open>disconnect()\<close>), and the \<open>emit\<close> calls made on it.
\<close>

record channel =
  listeners :: "(string \<times> handler) list"
  active :: bool
  emitted :: "(string \<times> string) list"

definition io :: channel where
  "io = \<lparr>listeners = [], active = True, emitted = []\<rparr>"

definition socket_on :: "string \<Rightarrow> handler \<Rightarrow> channel \<Rightarrow> channel" where
  "socket_on ev h ch = ch\<lparr>listeners := listeners ch @ [(ev, h)]\<rparr>"

definition socket_off :: "string \<Rightarrow> channel \<Rightarrow> channel" where
  "socket_off ev ch = ch\<lparr>listeners := filter (\<lambda>l. fst l \<noteq> ev) (listeners ch)\<rparr>"

definition socket_connect :: "channel \<Rightarrow> channel" where
  "socket_connect ch = ch\<lparr>active := True\<rparr>"

definition socket_disconnect :: "channel \<Rightarrow> channel" where
  "socket_disconnect ch = ch\<lparr>active := False\<rparr>"

definition socket_emit :: "string \<Rightarrow> string \<Rightarrow> channel \<Rightarrow> channel" where
  "socket_emit ev payload ch = ch\<lparr>emitted := emitted ch @ [(ev, payload)]\<rparr>"

subsection \<open>The provider's state\<close>

text \<open>
  \<open>socket\<close> and \<open>curSession\<close> are the two refs, \<open>isConnected\<close>,
  \<open>attemptedConnection\<close> and \<open>conversationHistory\<close> the provider's own
  \<open>useState\<close> cells. \<open>messages\<close> and \<open>isTyping\<close> are the cells of the message
  context the provider consumes, and \<open>chat_messages\<close> is the session-storage slot of
  that name (\<open>None\<close>: never written), holding the log that was serialised into it.
\<close>

record client =
  socket :: "channel option"
  curSession :: bool
  isConnected :: bool
  attemptedConnection :: bool
  conversationHistory :: string
  messages :: "message list"
  isTyping :: bool
  chat_messages :: "message list option"

definition initial_client :: client where
  "initial_client =
     \<lparr>socket = None, curSession = True, isConnected = False, attemptedConnection = False,
      conversationHistory = [], messages = [], isTyping = False, chat_messages = None\<rparr>"

subsection \<open>The message context\<close>

definition setIsTyping :: "bool \<Rightarrow> client \<Rightarrow> client" where
  "setIsTyping b c = c\<lparr>isTyping := b\<rparr>"

text \<open>
  Modelled from the spec: \<open>addMessage\<close> of MessageContextProvider, which is not among
  the sources. Section 4.3 gives it as \<open>append(message, sender, id?)\<close>: it appends one
  message to the log, and, as every mutation of the log, persists the full updated log
  to the session-storage slot before returning.
\<close>

definition addMessage :: "string \<Rightarrow> sender \<Rightarrow> string option \<Rightarrow> client \<Rightarrow> client" where
  "addMessage txt who ident c =
     (let updatedMessages = messages c @ [\<lparr>msg_id = ident, msg_text = txt, msg_sender = who\<rparr>]
      in c\<lparr>messages := updatedMessages, chat_messages := Some updatedMessages\<rparr>)"

text \<open>
  Modelled from the spec: \<open>resetState\<close> of MessageContextProvider, which is not among
  the sources. Section 4.3 gives it as \<open>resetAll()\<close>: it clears the log and the typing
  flag of the store and persists the (empty) log. It is called without arguments and
  belongs to the context the provider consumes, so the cells it can reach are those of
  the message context; \<open>conversationHistory\<close> is a \<open>useState\<close> cell of the provider
  (line 15) whose only setter calls are in the \<open>unexpected_error\<close> closures.
\<close>

definition resetState :: "client \<Rightarrow> client" where
  "resetState c = c\<lparr>messages := [], isTyping := False, chat_messages := Some []\<rparr>"

subsection \<open>The inbound event handlers\<close>

datatype inbound =
  Connect
| Message "string option" string
| UnexpectedError string
| Disconnect string
| ConnectError
| ConnectTimeout

fun event_name :: "inbound \<Rightarrow> string" where
  "event_name Connect = ''connect''"
| "event_name (Message ident txt) = ''message''"
| "event_name (UnexpectedError h) = ''unexpected_error''"
| "event_name (Disconnect reason) = ''disconnect''"
| "event_name ConnectError = ''connect_error''"
| "event_name ConnectTimeout = ''connect_timeout''"

definition welcomeMessage :: message where
  "welcomeMessage =
     \<lparr>msg_id = None,
      msg_text = ''Hi this is the Library Smart Chatbot. How may I help you?'',
      msg_sender = Chatbot\<rparr>"

definition errorMessage :: string where
  "errorMessage =
     ''Some unexpected errors happened. Please click the button at the bottom to continue your conversation with the real librarian.''
     @ [CHR 0x0A]"

definition on_connect :: "client \<Rightarrow> client" where
  "on_connect c =
     (let c1 = (if curSession c
                then (let updatedMessages = messages c @ [welcomeMessage]
                      in c\<lparr>messages := updatedMessages,
                           chat_messages := Some updatedMessages,
                           curSession := False\<rparr>)
                else c)
      in setIsTyping False (c1\<lparr>isConnected := True, attemptedConnection := True\<rparr>))"

definition on_message :: "string option \<Rightarrow> string \<Rightarrow> client \<Rightarrow> client" where
  "on_message messageId txt c = addMessage txt Chatbot messageId (setIsTyping False c)"

definition on_unexpected_error :: "string \<Rightarrow> client \<Rightarrow> client" where
  "on_unexpected_error history c =
     (addMessage errorMessage Chatbot None (setIsTyping False c))
       \<lparr>conversationHistory := history, isConnected := False\<rparr>"

definition on_disconnect :: "string \<Rightarrow> client \<Rightarrow> client" where
  "on_disconnect reason c =
     (if reason = ''io client disconnect''
      then (let c1 = (resetState c)\<lparr>curSession := True\<rparr>
            in c1\<lparr>socket := map_option socket_connect (socket c1)\<rparr>)
      else c\<lparr>isConnected := False, attemptedConnection := True\<rparr>)"

definition on_connect_error :: "client \<Rightarrow> client" where
  "on_connect_error c = c\<lparr>isConnected := False, attemptedConnection := True\<rparr>"

definition on_connect_timeout :: "client \<Rightarrow> client" where
  "on_connect_timeout c = c\<lparr>isConnected := False, attemptedConnection := True\<rparr>"

text \<open>
  A listener is called with the arguments of the event it is registered for; the
  channel never calls it for another event, so the remaining combinations do nothing.
\<close>

fun run_handler :: "handler \<Rightarrow> inbound \<Rightarrow> client \<Rightarrow> client" where
  "run_handler ConnectHandler Connect c = on_connect c"
| "run_handler MessageHandler (Message messageId txt) c = on_message messageId txt c"
| "run_handler UnexpectedErrorHandler (UnexpectedError history) c = on_unexpected_error history c"
| "run_handler DisconnectHandler (Disconnect reason) c = on_disconnect reason c"
| "run_handler ConnectErrorHandler ConnectError c = on_connect_error c"
| "run_handler ConnectTimeoutHandler ConnectTimeout c = on_connect_timeout c"
| "run_handler h e c = c"

definition handlers_for :: "string \<Rightarrow> channel \<Rightarrow> handler list" where
  "handlers_for ev ch = map snd (filter (\<lambda>l. fst l = ev) (listeners ch))"

text \<open>
  Delivery of one inbound event: every listener registered for the event's name at the
  time of delivery runs, in registration order.
\<close>

definition deliver :: "inbound \<Rightarrow> client \<Rightarrow> client" where
  "deliver e c =
     (case socket c of
        None \<Rightarrow> c
      | Some ch \<Rightarrow> fold (\<lambda>h. run_handler h e) (handlers_for (event_name e) ch) c)"

definition deliver_all :: "inbound list \<Rightarrow> client \<Rightarrow> client" where
  "deliver_all es c = fold deliver es c"

subsection \<open>The mount effect and its cleanup\<close>

definition registrations :: "(string \<times> handler) list" where
  "registrations =
     [(''connect'', ConnectHandler),
      (''message'', MessageHandler),
      (''unexpected_error'', UnexpectedErrorHandler),
      (''unexpected_error'', UnexpectedErrorHandler),
      (''disconnect'', DisconnectHandler),
      (''connect_error'', ConnectErrorHandler),
      (''connect_timeout'', ConnectTimeoutHandler)]"

definition useEffect :: "client \<Rightarrow> client" where
  "useEffect c =
     (let c1 = c\<lparr>socket := Some io\<rparr>
      in (case socket c1 of
            None \<Rightarrow> c1\<lparr>socket := Some io\<rparr>
          | Some ch \<Rightarrow> c1\<lparr>socket := Some (fold (\<lambda>l. socket_on (fst l) (snd l)) registrations ch)\<rparr>))"

text \<open>
  The cleanup returned by the effect. It reads \<open>socket.current\<close> unguarded, so on an
  absent channel reference the first \<open>off\<close> raises.
\<close>

definition cleanup :: "client \<Rightarrow> error + client" where
  "cleanup c =
     (case socket c of
        None \<Rightarrow> Inl (TypeError ''off'')
      | Some ch \<Rightarrow>
          Inr (c\<lparr>socket := Some
                 (socket_disconnect (socket_disconnect
                   (socket_off ''connect_timeout'' (socket_off ''connect_error''
                     (socket_off ''disconnect'' (socket_off ''message'' ch))))))\<rparr>))"

subsection \<open>The outbound operations\<close>

definition sendUserMessage :: "string \<Rightarrow> client \<Rightarrow> client" where
  "sendUserMessage txt c =
     (case socket c of
        None \<Rightarrow> c
      | Some ch \<Rightarrow> c\<lparr>socket := Some (socket_emit ''message'' txt ch)\<rparr>)"

definition offlineTicketSubmit :: "string \<Rightarrow> client \<Rightarrow> client" where
  "offlineTicketSubmit formData c =
     (case socket c of
        None \<Rightarrow> c
      | Some ch \<Rightarrow> c\<lparr>socket := Some (socket_emit ''createTicket'' formData ch)\<rparr>)"

definition sendMessageRating :: "string \<Rightarrow> client \<Rightarrow> client" where
  "sendMessageRating messageRating c =
     (case socket c of
        None \<Rightarrow> c
      | Some ch \<Rightarrow> c\<lparr>socket := Some (socket_emit ''messageRating'' messageRating ch)\<rparr>)"

definition sendUserFeedback :: "string \<Rightarrow> client \<Rightarrow> client" where
  "sendUserFeedback userFeedback c =
     (case socket c of
        None \<Rightarrow> c
      | Some ch \<Rightarrow>
          c\<lparr>socket := Some (socket_disconnect (socket_emit ''userFeedback'' userFeedback ch))\<rparr>)"

text \<open>A client whose channel carries exactly the listeners the mount effect registers.\<close>

definition mounted :: "client \<Rightarrow> bool" where
  "mounted c = (case socket c of None \<Rightarrow> False | Some ch \<Rightarrow> listeners ch = registrations)"

fun is_reset :: "inbound \<Rightarrow> bool" where
  "is_reset (Disconnect reason) = (reason = ''io client disconnect'')"
| "is_reset e = False"

text \<open>The events of a transient connectivity change: connects and everything that marks
  the channel disconnected without resetting.\<close>

fun is_transient :: "inbound \<Rightarrow> bool" where
  "is_transient Connect = True"
| "is_transient (Disconnect reason) = (reason \<noteq> ''io client disconnect'')"
| "is_transient ConnectError = True"
| "is_transient ConnectTimeout = True"
| "is_transient e = False"

text \<open>The payload of a \<open>message\<close> event, the event carrying it and the log entry it is to
  produce.\<close>

fun message_event :: "string option \<times> string \<Rightarrow> inbound" where
  "message_event (messageId, body) = Message messageId body"

fun chatbot_message :: "string option \<times> string \<Rightarrow> message" where
  "chatbot_message (messageId, body) = \<lparr>msg_id = messageId, msg_text = body, msg_sender = Chatbot\<rparr>"

text \<open>
  A session in progress, just after the user has sent feedback: the client was mounted
  and connected, received one answer and one \<open>unexpected_error\<close> with payload
  \<open>h\<close>, then \<open>sendUserFeedback\<close> closed the channel while the typing flag was set.
\<close>

definition session_in_progress :: client where
  "session_in_progress =
     setIsTyping True (sendUserFeedback ''thanks''
       (deliver_all [Connect, Message (Some ''42'') ''Try the 2nd floor.'', UnexpectedError ''h'']
          (useEffect initial_client)))"

section \<open>Backend: the catalogue search adapter\<close>

subsection \<open>The records of the search API and the display record\<close>

text \<open>
  The types of \<open>./Record\<close> are not among the sources; the fields are the ones the
  functions read. A field the code guards (\<open>?.\<close>, \<open>Array.isArray\<close>, \<open>||\<close>) may be
  absent: \<open>None\<close> for an object or array, \<open>JUndefined\<close> or \<open>JNull\<close> for a string.
  \<open>publicationYear\<close> is a number that is either a four-digit match or \<open>NaN\<close>
  (\<open>None\<close>).
\<close>

record item =
  Name :: string
  Data :: jsval

record copy_information =
  Sublocation :: string
  ShelfLocator :: string

record holding_simple =
  CopyInformationList :: "copy_information list option"

record holdings =
  HoldingSimple :: holding_simple

record header =
  PubType :: jsval

record ebsco_record =
  Header :: "header option"
  Items :: "item list option"
  Holdings :: "holdings list option"

record display_record =
  title :: jsval
  author :: jsval
  publicationYear :: "nat option"
  bookType :: jsval
  subjects :: jsval
  locationInformation :: "copy_information list"

text \<open>\<open>Records\<close> stands for \<open>SearchResult.Data.Records\<close>; an entry of the array can be
  \<open>null\<close> at run time (\<open>None\<close>), which \<open>transformToDisplayRecord\<close> half guards.\<close>

record search_response =
  Records :: "ebsco_record option list"

subsection \<open>The field extractors\<close>

text \<open>
  \<open>items.find(i => i.Name === name)\<close> gives the first item of that name or
  \<open>undefined\<close>; \<open>item?.Data || 'Not available'\<close> replaces a falsy value.
\<close>

definition extractItemData :: "item list option \<Rightarrow> string \<Rightarrow> jsval" where
  "extractItemData items name =
     (case items of
        None \<Rightarrow> JStr ''Not available''
      | Some xs \<Rightarrow>
          if length xs = 0 then JStr ''Not available''
          else js_or (case find (\<lambda>i. Name i = name) xs of
                        None \<Rightarrow> JUndefined
                      | Some i \<Rightarrow> Data i)
                     (JStr ''Not available''))"

definition is_digit :: "char \<Rightarrow> bool" where
  "is_digit ch = (ch \<in> set ''0123456789'')"

definition digit_value :: "char \<Rightarrow> nat" where
  "digit_value ch = of_char ch - 48"

text \<open>\<open>Number(s.match(/(\d{4})/)[1])\<close>: the leftmost run of four decimal digits, as a
  number; \<open>None\<close> when there is no match.\<close>

fun match_four_digits :: "string \<Rightarrow> nat option" where
  "match_four_digits (a # b # c # d # rest) =
     (if is_digit a \<and> is_digit b \<and> is_digit c \<and> is_digit d
      then Some (((digit_value a * 10 + digit_value b) * 10 + digit_value c) * 10 + digit_value d)
      else match_four_digits (b # c # d # rest))"
| "match_four_digits s = None"

text \<open>\<open>titleSource\<close> is always a string (see \<open>extractItemData_truthy\<close> below), so the
  two other cases of the match never arise.\<close>

definition extractPublicationYear :: "item list option \<Rightarrow> nat option" where
  "extractPublicationYear items =
     (case items of
        None \<Rightarrow> None
      | Some xs \<Rightarrow>
          if length xs = 0 then None
          else (case extractItemData items ''TitleSource'' of
                  JStr titleSource \<Rightarrow> match_four_digits titleSource
                | JUndefined \<Rightarrow> None
                | JNull \<Rightarrow> None))"

definition extractSubjects :: "item list option \<Rightarrow> jsval" where
  "extractSubjects items =
     (case items of
        None \<Rightarrow> JStr ''Not available''
      | Some xs \<Rightarrow>
          if length xs = 0 then JStr ''Not available''
          else (let subjectData = extractItemData items ''Subject''
                in if truthy subjectData then subjectData else JStr ''Not available''))"

text \<open>The final \<open>locationInformation ? locationInformation : [...]\<close> tests an array, which
  is always truthy, so the array itself is returned.\<close>

definition extractLocationInformation :: "ebsco_record option \<Rightarrow> copy_information list" where
  "extractLocationInformation rec =
     (let locationInformation =
            (case Option.bind rec Holdings of
               None \<Rightarrow> []
             | Some hs \<Rightarrow>
                 (case hs of
                    [] \<Rightarrow> []
                  | firstHolding # _ \<Rightarrow>
                      (case CopyInformationList (HoldingSimple firstHolding) of
                         None \<Rightarrow> []
                       | Some copyInformationList \<Rightarrow> copyInformationList)))
      in locationInformation)"

text \<open>
  \<open>record?.Items?.map(...) || []\<close> tolerates an absent record, \<open>record.Header\<close> does
  not: on \<open>null\<close> or \<open>undefined\<close> it raises, and the promise is rejected.
\<close>

definition transformToDisplayRecord :: "ebsco_record option \<Rightarrow> error + display_record" where
  "transformToDisplayRecord rec =
     (let items = (case Option.bind rec Items of None \<Rightarrow> [] | Some xs \<Rightarrow> xs);
          title_v = extractItemData (Some items) ''Title'';
          author_v = extractItemData (Some items) ''Author'';
          publicationYear_v = extractPublicationYear (Some items)
      in (case rec of
            None \<Rightarrow> Inl (TypeError ''Header'')
          | Some r \<Rightarrow>
              (let bookType_v = js_or (case Header r of None \<Rightarrow> JUndefined | Some h \<Rightarrow> PubType h)
                                      (JStr ''Not available'');
                   subjects_v = extractSubjects (Some items);
                   locationInformation_v = extractLocationInformation rec
               in Inr \<lparr>title = title_v, author = author_v, publicationYear = publicationYear_v,
                       bookType = bookType_v, subjects = subjects_v,
                       locationInformation = locationInformation_v\<rparr>)))"

subsection \<open>The search\<close>

text \<open>
  The calls that leave the process, as parameters: each either is rejected (\<open>Inl\<close>)
  or resolves. \<open>performSearch\<close> resolves to an \<open>Either\<close>.
\<close>

record ebsco_api =
  getEnvironmentVariables :: "error + unit"
  performSearch :: "string \<Rightarrow> string \<Rightarrow> int \<Rightarrow> error + (error, search_response) either"
  endSession :: "string \<Rightarrow> error + unit"

text \<open>\<open>Promise.all\<close> over promises that settle in order: the first rejection, or all the
  values.\<close>

fun promise_all :: "(error + 'a) list \<Rightarrow> error + 'a list" where
  "promise_all [] = Inr []"
| "promise_all (Inl e # ps) = Inl e"
| "promise_all (Inr x # ps) = (case promise_all ps of Inl e \<Rightarrow> Inl e | Inr xs \<Rightarrow> Inr (x # xs))"

text \<open>
  The outer sum is the promise of the async function (\<open>Inl\<close>: rejected), the inner
  \<open>either\<close> the value it resolves to. Every value of \<open>error\<close> is an instance of
  \<open>Error\<close>, so the catch block takes its first branch.
\<close>

definition queryEbscoApi ::
  "ebsco_api \<Rightarrow> string \<Rightarrow> string \<Rightarrow> int \<Rightarrow> error + (error, display_record list) either" where
  "queryEbscoApi api query sessionToken numOfBooks =
     (case getEnvironmentVariables api of
        Inl e \<Rightarrow> Inl e
      | Inr u \<Rightarrow>
          (case performSearch api sessionToken query numOfBooks of
             Inl e \<Rightarrow> Inl e
           | Inr (Left e) \<Rightarrow> Inr (Left e)
           | Inr (Right response) \<Rightarrow>
               (case promise_all (map transformToDisplayRecord (Records response)) of
                  Inl e \<Rightarrow> Inr (Left e)
                | Inr data \<Rightarrow>
                    (case endSession api sessionToken of
                       Inl e \<Rightarrow> Inl e
                     | Inr u' \<Rightarrow> Inr (Right data)))))"

definition searchForBook ::
  "ebsco_api \<Rightarrow> string \<Rightarrow> string \<Rightarrow> int \<Rightarrow> error + display_record list" where
  "searchForBook api query sessionToken numOfBooks =
     (case queryEbscoApi api query sessionToken numOfBooks of
        Inl e \<Rightarrow> Inl e
      | Inr (Left e) \<Rightarrow> Inl (Error ''No results found due to an error.'')
      | Inr (Right data) \<Rightarrow>
          if length data > 0 then Inr data else Inl (Error ''No results found''))"

section \<open>Backend: the cancel-reservation tool\<close>

text \<open>
  One entry of the response array of the reservation API, the result of \<open>run\<close>, and
  the service with what it reads: the configured URL, the current access token, and
  the HTTP POST as a parameter (URL and Authorization header to a rejection or the
  response data).
\<close>

record cancel_item =
  booking_id :: string
  cancelled :: bool
  cancel_error :: jsval

record run_result =
  success :: bool
  error :: jsval

record cancel_service =
  CANCEL_URL :: string
  accessToken :: string
  axios_post :: "string \<Rightarrow> string \<Rightarrow> error + cancel_item list"

text \<open>
  Both functions return the URLs posted to along with their outcome (\<open>Inl\<close>: thrown).
  \<open>response.data[0].cancelled\<close> on an empty array raises inside the \<open>try\<close>; the
  catch block rethrows whatever it caught as \<open>new Error(error)\<close>. The log calls are
  not modelled.
\<close>

definition run :: "cancel_service \<Rightarrow> string \<Rightarrow> string list \<times> (error + run_result)" where
  "run svc bookingID =
     (let header = ''Bearer '' @ accessToken svc;
          url = CANCEL_URL svc @ ''/'' @ bookingID
      in ([url],
          (case axios_post svc url header of
             Inl e \<Rightarrow> Inl (Error (error_to_string e))
           | Inr data \<Rightarrow>
               (case data of
                  [] \<Rightarrow> Inl (Error (error_to_string (TypeError ''cancelled'')))
                | first # _ \<Rightarrow>
                    if cancelled first then Inr \<lparr>success = True, error = JNull\<rparr>
                    else Inr \<lparr>success = False, error = cancel_error first\<rparr>))))"

definition missing_bookingID :: string where
  "missing_bookingID =
     ''Cannot perform booking because missing parameter bookingID. Ask the customer to provide bookingID to perform booking''
     @ [CHR 0x0A]"

definition toolRunForLlm :: "cancel_service \<Rightarrow> jsval \<Rightarrow> string list \<times> (error + string)" where
  "toolRunForLlm svc bookingID_in =
     (if bookingID_in = JNull \<or> bookingID_in = JStr ''null''
         \<or> bookingID_in = JUndefined \<or> bookingID_in = JStr ''undefined''
      then ([], Inr missing_bookingID)
      else (let bookingID = js_to_string bookingID_in;
                (calls, outcome) = run svc bookingID
            in (calls,
                (case outcome of
                   Inr response \<Rightarrow>
                     if success response
                     then Inr (''Room reservation with ID: '' @ bookingID
                               @ '' is cancelled successfully'' @ [CHR 0x0A])
                     else Inr (''Room reservation with ID: '' @ bookingID
                               @ '' is not cancelled successfully. Error message: ''
                               @ js_to_string (error response) @ [CHR 0x0A])
                 | Inl e \<Rightarrow> Inl e))))"

section \<open>Properties of the socket session\<close>

subsection \<open>Delivery to a mounted client\<close>

lemma handlers_for_registrations:
  "listeners ch = registrations \<Longrightarrow> handlers_for ''connect'' ch = [ConnectHandler]"
  "listeners ch = registrations \<Longrightarrow> handlers_for ''message'' ch = [MessageHandler]"
  "listeners ch = registrations \<Longrightarrow>
     handlers_for ''unexpected_error'' ch = [UnexpectedErrorHandler, UnexpectedErrorHandler]"
  "listeners ch = registrations \<Longrightarrow> handlers_for ''disconnect'' ch = [DisconnectHandler]"
  "listeners ch = registrations \<Longrightarrow> handlers_for ''connect_error'' ch = [ConnectErrorHandler]"
  "listeners ch = registrations \<Longrightarrow> handlers_for ''connect_timeout'' ch = [ConnectTimeoutHandler]"
  by (simp_all add: handlers_for_def registrations_def)

lemma deliver_mounted:
  assumes "mounted c"
  shows "deliver Connect c = on_connect c"
    and "deliver (Message i m) c = on_message i m c"
    and "deliver (UnexpectedError p) c = on_unexpected_error p (on_unexpected_error p c)"
    and "deliver (Disconnect r) c = on_disconnect r c"
    and "deliver ConnectError c = on_connect_error c"
    and "deliver ConnectTimeout c = on_connect_timeout c"
  using assms
  by (auto simp: mounted_def deliver_def handlers_for_registrations split: option.splits)

lemma socket_handlers [simp]:
  "socket (on_connect c) = socket c"
  "socket (on_message i m c) = socket c"
  "socket (on_unexpected_error p c) = socket c"
  "socket (on_connect_error c) = socket c"
  "socket (on_connect_timeout c) = socket c"
  "socket (on_disconnect r c) =
     (if r = ''io client disconnect'' then map_option socket_connect (socket c) else socket c)"
  by (simp_all add: on_connect_def on_message_def on_unexpected_error_def on_connect_error_def
      on_connect_timeout_def on_disconnect_def addMessage_def setIsTyping_def resetState_def Let_def)

lemma listeners_socket_connect: "listeners (socket_connect ch) = listeners ch"
  by (simp add: socket_connect_def)

lemma mounted_deliver: "mounted c \<Longrightarrow> mounted (deliver e c)"
proof (cases e)
  case (Disconnect r)
  assume m: "mounted c"
  have "mounted (on_disconnect r c)"
    using m by (auto simp: mounted_def listeners_socket_connect split: option.splits)
  then show ?thesis using m Disconnect by (simp add: deliver_mounted)
qed (simp_all add: deliver_mounted, simp_all add: mounted_def)

lemma mounted_useEffect: "mounted (useEffect c)"
  by (simp add: useEffect_def mounted_def io_def socket_on_def registrations_def)

lemma deliver_all_snoc: "deliver_all (es @ [e]) c = deliver e (deliver_all es c)"
  by (simp add: deliver_all_def)

lemma mounted_deliver_all: "mounted c \<Longrightarrow> mounted (deliver_all es c)"
  by (induction es rule: rev_induct) (simp_all add: deliver_all_def mounted_deliver)

subsection \<open>The welcome message\<close>

lemma curSession_deliver:
  "mounted c \<Longrightarrow> \<not> is_reset e \<Longrightarrow> curSession (deliver e c) = (curSession c \<and> e \<noteq> Connect)"
  by (cases e) (auto simp: deliver_mounted on_connect_def on_message_def on_unexpected_error_def
      on_connect_error_def on_connect_timeout_def on_disconnect_def addMessage_def setIsTyping_def Let_def)

lemma curSession_deliver_all:
  "mounted c \<Longrightarrow> \<forall>e\<in>set es. \<not> is_reset e \<Longrightarrow>
     curSession (deliver_all es c) = (curSession c \<and> Connect \<notin> set es)"
proof (induction es rule: rev_induct)
  case Nil
  then show ?case by (simp add: deliver_all_def)
next
  case (snoc e es)
  then show ?case
    by (auto simp: deliver_all_snoc curSession_deliver mounted_deliver_all)
qed

lemma messages_deliver_transient:
  "mounted c \<Longrightarrow> is_transient e \<Longrightarrow>
     messages (deliver e c) = messages c @ (if e = Connect \<and> curSession c then [welcomeMessage] else [])"
  by (cases e) (auto simp: deliver_mounted on_connect_def on_connect_error_def
      on_connect_timeout_def on_disconnect_def setIsTyping_def Let_def)

lemma is_transient_not_reset: "is_transient e \<Longrightarrow> \<not> is_reset e"
  by (cases e) auto

lemma messages_deliver_all_transient:
  "mounted c \<Longrightarrow> curSession c \<Longrightarrow> \<forall>e\<in>set es. is_transient e \<Longrightarrow>
     messages (deliver_all es c) = messages c @ (if Connect \<in> set es then [welcomeMessage] else [])"
proof (induction es rule: rev_induct)
  case Nil
  then show ?case by (simp add: deliver_all_def)
next
  case (snoc e es)
  then have nr: "\<forall>x\<in>set es. \<not> is_reset x" by (auto dest: is_transient_not_reset)
  from snoc show ?case
    by (auto simp: deliver_all_snoc messages_deliver_transient mounted_deliver_all
        curSession_deliver_all[OF snoc.prems(1) nr])
qed

text \<open>
  Claim C1. On a mounted client whose \<open>curSession\<close> flag is set, run any sequence
  of inbound events without a reset disconnect. Then the flag is still set exactly when
  no \<open>connect\<close> event has been delivered; a further \<open>connect\<close> event appends the
  welcome message exactly when it is the first one, and appends nothing otherwise; after
  it the flag is cleared. Across transient disconnects and reconnects alone the log is
  the initial log followed by one welcome message, however many reconnects there are.
\<close>

theorem welcome_once_per_session:
  assumes "mounted c" and "curSession c" and "\<forall>e\<in>set es. \<not> is_reset e"
  shows "curSession (deliver_all es c) = (Connect \<notin> set es)
       \<and> messages (deliver Connect (deliver_all es c))
           = messages (deliver_all es c) @ (if Connect \<in> set es then [] else [welcomeMessage])
       \<and> curSession (deliver Connect (deliver_all es c)) = False
       \<and> ((\<forall>e\<in>set es. is_transient e) \<longrightarrow>
            messages (deliver_all es c)
              = messages c @ (if Connect \<in> set es then [welcomeMessage] else []))"
proof -
  have m: "mounted (deliver_all es c)" using assms(1) by (rule mounted_deliver_all)
  have cs: "curSession (deliver_all es c) = (Connect \<notin> set es)"
    using assms by (simp add: curSession_deliver_all)
  have step: "messages (deliver Connect (deliver_all es c))
           = messages (deliver_all es c) @ (if Connect \<in> set es then [] else [welcomeMessage])"
    using cs by (simp add: deliver_mounted[OF m] on_connect_def setIsTyping_def Let_def)
  have off: "curSession (deliver Connect (deliver_all es c)) = False"
    by (simp add: deliver_mounted[OF m] on_connect_def setIsTyping_def Let_def)
  show ?thesis using cs step off messages_deliver_all_transient[OF assms(1,2)] by blast
qed

theorem welcome_once_per_session_witness:
  "mounted (useEffect initial_client) \<and> curSession (useEffect initial_client)
   \<and> list_all (\<lambda>e. \<not> is_reset e)
         [Connect, Disconnect ''transport close'', Connect, ConnectError, Connect]
   \<and> list_all is_transient
         [Connect, Disconnect ''transport close'', Connect, ConnectError, Connect]
   \<and> messages (deliver_all [Connect, Disconnect ''transport close'', Connect, ConnectError, Connect]
        (useEffect initial_client)) = [welcomeMessage]"
proof -
  have cs: "curSession (useEffect initial_client)" by (simp add: useEffect_def initial_client_def)
  have ms: "messages (useEffect initial_client) = []" by (simp add: useEffect_def initial_client_def)
  have nr: "\<forall>e\<in>set [Connect, Disconnect ''transport close'', Connect, ConnectError, Connect]. \<not> is_reset e"
    by simp
  have tr: "\<forall>e\<in>set [Connect, Disconnect ''transport close'', Connect, ConnectError, Connect]. is_transient e"
    by simp
  show ?thesis
    using welcome_once_per_session[OF mounted_useEffect cs nr] mounted_useEffect[of initial_client] cs nr tr
    by (simp add: ms)
qed

subsection \<open>The unexpected-error event\<close>

text \<open>
  Claim C2. The mount effect registers the \<open>unexpected_error\<close> closure twice, and the
  channel runs every registered listener: one such event, delivered to a freshly mounted
  client, appends the fallback message twice. The typing flag is cleared, the history
  snapshot is the payload and \<open>isConnected\<close> is false, as the claim says.
\<close>

theorem unexpected_error_appends_twice:
  "messages (deliver (UnexpectedError p) (useEffect c))
     = messages c @ [\<lparr>msg_id = None, msg_text = errorMessage, msg_sender = Chatbot\<rparr>,
                     \<lparr>msg_id = None, msg_text = errorMessage, msg_sender = Chatbot\<rparr>]
   \<and> isTyping (deliver (UnexpectedError p) (useEffect c)) = False
   \<and> conversationHistory (deliver (UnexpectedError p) (useEffect c)) = p
   \<and> isConnected (deliver (UnexpectedError p) (useEffect c)) = False"
proof -
  have m: "mounted (useEffect c)" by (rule mounted_useEffect)
  have ms: "messages (useEffect c) = messages c" by (simp add: useEffect_def)
  show ?thesis
    by (simp add: deliver_mounted[OF m] on_unexpected_error_def addMessage_def setIsTyping_def Let_def ms)
qed

subsection \<open>The reset disconnect\<close>

lemma conversationHistory_on_disconnect:
  "conversationHistory (on_disconnect r c) = conversationHistory c"
  by (simp add: on_disconnect_def resetState_def Let_def)

lemma mounted_session_in_progress: "mounted session_in_progress"
proof -
  have m: "mounted (deliver_all [Connect, Message (Some ''42'') ''Try the 2nd floor.'', UnexpectedError ''h'']
         (useEffect initial_client))"
    by (rule mounted_deliver_all[OF mounted_useEffect])
  then show ?thesis
    by (auto simp: session_in_progress_def mounted_def setIsTyping_def sendUserFeedback_def
        socket_disconnect_def socket_emit_def split: option.splits)
qed

lemma session_in_progress_state:
  "length (messages session_in_progress) = 4
   \<and> isTyping session_in_progress = True
   \<and> curSession session_in_progress = False
   \<and> map_option active (socket session_in_progress) = Some False
   \<and> conversationHistory session_in_progress = ''h''"
proof -
  let ?c = "useEffect initial_client"
  have m0: "mounted ?c" by (rule mounted_useEffect)
  have e1: "deliver Connect ?c = on_connect ?c" by (rule deliver_mounted(1)[OF m0])
  have m1: "mounted (on_connect ?c)" using mounted_deliver[OF m0, of Connect] by (simp only: e1)
  have e2: "deliver (Message (Some ''42'') ''Try the 2nd floor.'') (on_connect ?c)
              = on_message (Some ''42'') ''Try the 2nd floor.'' (on_connect ?c)"
    by (rule deliver_mounted(2)[OF m1])
  have m2: "mounted (on_message (Some ''42'') ''Try the 2nd floor.'' (on_connect ?c))"
    using mounted_deliver[OF m1, of "Message (Some ''42'') ''Try the 2nd floor.''"] by (simp only: e2)
  have e3: "deliver (UnexpectedError ''h'') (on_message (Some ''42'') ''Try the 2nd floor.'' (on_connect ?c))
              = on_unexpected_error ''h'' (on_unexpected_error ''h''
                  (on_message (Some ''42'') ''Try the 2nd floor.'' (on_connect ?c)))"
    by (rule deliver_mounted(3)[OF m2])
  have run: "deliver_all [Connect, Message (Some ''42'') ''Try the 2nd floor.'', UnexpectedError ''h''] ?c
      = on_unexpected_error ''h'' (on_unexpected_error ''h''
          (on_message (Some ''42'') ''Try the 2nd floor.'' (on_connect ?c)))"
    by (simp add: deliver_all_def e1 e2 e3)
  have s: "socket ?c \<noteq> None" "curSession ?c" "messages ?c = []"
    by (simp_all add: useEffect_def initial_client_def)
  obtain ch where ch: "socket ?c = Some ch" using s(1) by auto
  show ?thesis
    unfolding session_in_progress_def run
    by (simp add: setIsTyping_def sendUserFeedback_def on_unexpected_error_def on_message_def
        on_connect_def addMessage_def Let_def socket_disconnect_def socket_emit_def s ch)
qed

text \<open>
  Claim C3, as stated, fails: the reset does not touch the history snapshot. After an
  \<open>unexpected_error\<close> event with payload \<open>history\<close> and a disconnect with reason
  \<open>io client disconnect\<close>, the snapshot is still that payload, not the initial empty
  string.
\<close>

theorem reset_keeps_history_counterexample:
  "conversationHistory
     (deliver (Disconnect ''io client disconnect'')
        (deliver (UnexpectedError ''history'') (useEffect initial_client))) \<noteq> []"
proof -
  let ?c = "useEffect initial_client"
  have m: "mounted ?c" by (rule mounted_useEffect)
  have m2: "mounted (deliver (UnexpectedError ''history'') ?c)"
    using m by (rule mounted_deliver)
  have "conversationHistory (deliver (Disconnect ''io client disconnect'')
          (deliver (UnexpectedError ''history'') ?c))
        = conversationHistory (deliver (UnexpectedError ''history'') ?c)"
    by (simp only: deliver_mounted(4)[OF m2] conversationHistory_on_disconnect)
  also have "\<dots> = ''history''"
    by (simp add: deliver_mounted(3)[OF m] on_unexpected_error_def)
  finally show ?thesis by simp
qed

text \<open>
  Claim C3, amended. On a mounted client a disconnect with reason
  \<open>io client disconnect\<close> empties the log, clears the typing flag, sets
  \<open>curSession\<close>, asks the channel to connect again and leaves the history snapshot as
  it was; delivering it twice gives the same state as delivering it once.
\<close>

theorem client_disconnect_resets:
  assumes "mounted c"
  shows "messages (deliver (Disconnect ''io client disconnect'') c) = []
       \<and> isTyping (deliver (Disconnect ''io client disconnect'') c) = False
       \<and> curSession (deliver (Disconnect ''io client disconnect'') c) = True
       \<and> map_option active (socket (deliver (Disconnect ''io client disconnect'') c)) = Some True
       \<and> conversationHistory (deliver (Disconnect ''io client disconnect'') c) = conversationHistory c
       \<and> deliver (Disconnect ''io client disconnect'')
           (deliver (Disconnect ''io client disconnect'') c)
           = deliver (Disconnect ''io client disconnect'') c"
proof -
  let ?r = "''io client disconnect''"
  have m2: "mounted (deliver (Disconnect ?r) c)" using assms by (rule mounted_deliver)
  obtain ch where ch: "socket c = Some ch"
    using assms by (auto simp: mounted_def split: option.splits)
  have once: "deliver (Disconnect ?r) c = on_disconnect ?r c"
    by (rule deliver_mounted(4)[OF assms])
  have twice: "deliver (Disconnect ?r) (deliver (Disconnect ?r) c)
                 = on_disconnect ?r (on_disconnect ?r c)"
    using deliver_mounted(4)[OF m2] by (simp only: once)
  have idem: "on_disconnect ?r (on_disconnect ?r c) = on_disconnect ?r c"
    by (simp add: on_disconnect_def resetState_def Let_def ch socket_connect_def)
  have eff: "messages (on_disconnect ?r c) = [] \<and> isTyping (on_disconnect ?r c) = False
       \<and> curSession (on_disconnect ?r c) = True
       \<and> map_option active (socket (on_disconnect ?r c)) = Some True
       \<and> conversationHistory (on_disconnect ?r c) = conversationHistory c"
    by (simp add: on_disconnect_def resetState_def Let_def ch socket_connect_def)
  have "deliver (Disconnect ?r) (deliver (Disconnect ?r) c) = on_disconnect ?r c"
    by (simp only: twice idem)
  also have "\<dots> = deliver (Disconnect ?r) c"
    by (rule once[symmetric])
  finally have dd: "deliver (Disconnect ?r) (deliver (Disconnect ?r) c) = deliver (Disconnect ?r) c" .
  have eff': "messages (deliver (Disconnect ?r) c) = [] \<and> isTyping (deliver (Disconnect ?r) c) = False
       \<and> curSession (deliver (Disconnect ?r) c) = True
       \<and> map_option active (socket (deliver (Disconnect ?r) c)) = Some True
       \<and> conversationHistory (deliver (Disconnect ?r) c) = conversationHistory c"
    using eff by (simp only: once)
  show ?thesis
    using eff' dd by blast
qed

theorem client_disconnect_resets_witness:
  "mounted session_in_progress
   \<and> length (messages session_in_progress) = 4
   \<and> isTyping session_in_progress = True
   \<and> curSession session_in_progress = False
   \<and> map_option active (socket session_in_progress) = Some False
   \<and> conversationHistory session_in_progress = ''h''
   \<and> messages (deliver (Disconnect ''io client disconnect'')
       session_in_progress) = []
   \<and> isTyping (deliver (Disconnect ''io client disconnect'')
       session_in_progress) = False
   \<and> curSession (deliver (Disconnect ''io client disconnect'')
       session_in_progress) = True
   \<and> map_option active (socket (deliver (Disconnect ''io client disconnect'')
       session_in_progress)) = Some True
   \<and> conversationHistory (deliver (Disconnect ''io client disconnect'')
       session_in_progress) = ''h''
   \<and> deliver (Disconnect ''io client disconnect'')
       (deliver (Disconnect ''io client disconnect'')
         session_in_progress)
     = deliver (Disconnect ''io client disconnect'')
         session_in_progress"
  using client_disconnect_resets[OF mounted_session_in_progress] mounted_session_in_progress
    session_in_progress_state
  by simp

subsection \<open>Message events\<close>

lemma message_step:
  "mounted c \<Longrightarrow> messages (deliver (Message i m) c) = messages c @ [chatbot_message (i, m)]
     \<and> isTyping (deliver (Message i m) c) = False"
  by (simp add: deliver_mounted on_message_def addMessage_def setIsTyping_def Let_def)

lemma messages_in_order:
  "mounted c \<Longrightarrow>
     messages (deliver_all (map message_event ps) c) = messages c @ map chatbot_message ps"
proof (induction ps rule: rev_induct)
  case Nil
  then show ?case by (simp add: deliver_all_def)
next
  case (snoc p ps)
  obtain i m where p: "p = (i, m)" by (cases p)
  have m: "mounted (deliver_all (map message_event ps) c)"
    using snoc.prems by (rule mounted_deliver_all)
  show ?case
    using snoc by (simp add: p deliver_all_snoc message_step[OF m])
qed

text \<open>
  Claim C4. On a mounted client a \<open>message\<close> event with payload
  \<open>{messageId, message}\<close> clears the typing flag and appends exactly the message with
  that id, that text and sender chatbot; a sequence of such events appends their messages
  in delivery order, so the log grows by one per event.
\<close>

theorem message_events_append_in_order:
  assumes "mounted c"
  shows "messages (deliver (Message messageId body) c)
           = messages c @ [\<lparr>msg_id = messageId, msg_text = body, msg_sender = Chatbot\<rparr>]
       \<and> isTyping (deliver (Message messageId body) c) = False
       \<and> messages (deliver_all (map message_event ps) c) = messages c @ map chatbot_message ps
       \<and> length (messages (deliver_all (map message_event ps) c)) = length (messages c) + length ps"
  using message_step[OF assms, of messageId body] messages_in_order[OF assms, of ps]
  by simp

theorem message_events_append_in_order_witness:
  "mounted (useEffect initial_client)
   \<and> messages (deliver_all (map message_event [(Some ''42'', ''Try the 2nd floor.''), (None, ''Bye'')])
        (useEffect initial_client))
     = [\<lparr>msg_id = Some ''42'', msg_text = ''Try the 2nd floor.'', msg_sender = Chatbot\<rparr>,
        \<lparr>msg_id = None, msg_text = ''Bye'', msg_sender = Chatbot\<rparr>]"
proof -
  have ms: "messages (useEffect initial_client) = []" by (simp add: useEffect_def initial_client_def)
  show ?thesis
    using message_events_append_in_order[OF mounted_useEffect,
        where ps = "[(Some ''42'', ''Try the 2nd floor.''), (None, ''Bye'')]" and c1 = initial_client]
      mounted_useEffect[of initial_client]
    by (simp add: ms)
qed

subsection \<open>Connectivity failures\<close>

text \<open>
  Claim C5. On a mounted client a \<open>connect_error\<close>, a \<open>connect_timeout\<close> or a
  disconnect with any reason other than \<open>io client disconnect\<close> sets
  \<open>isConnected\<close> to false and \<open>attemptedConnection\<close> to true and changes nothing
  else: the log, the typing flag, the history snapshot and \<open>curSession\<close> are as
  before.
\<close>

theorem connectivity_failures_frame:
  assumes "mounted c"
    and "e = ConnectError \<or> e = ConnectTimeout \<or> (\<exists>reason. e = Disconnect reason \<and> reason \<noteq> ''io client disconnect'')"
  shows "deliver e c = c\<lparr>isConnected := False, attemptedConnection := True\<rparr>
       \<and> isConnected (deliver e c) = False
       \<and> attemptedConnection (deliver e c) = True
       \<and> messages (deliver e c) = messages c
       \<and> isTyping (deliver e c) = isTyping c
       \<and> conversationHistory (deliver e c) = conversationHistory c
       \<and> curSession (deliver e c) = curSession c"
  using assms(2)
  by (auto simp: deliver_mounted[OF assms(1)] on_connect_error_def on_connect_timeout_def on_disconnect_def)

theorem connectivity_failures_frame_witness:
  "mounted (useEffect initial_client)
   \<and> deliver (Disconnect ''transport close'') (useEffect initial_client)
       = (useEffect initial_client)\<lparr>isConnected := False, attemptedConnection := True\<rparr>"
  using connectivity_failures_frame[OF mounted_useEffect, of "Disconnect ''transport close''" initial_client]
    mounted_useEffect[of initial_client]
  by simp

subsection \<open>Sending\<close>

text \<open>
  Claim C6, as stated, fails: the guard of \<open>sendUserMessage\<close> is the channel
  reference, not \<open>isConnected\<close>. A mounted client that has never connected has
  \<open>isConnected\<close> false and still emits the \<open>message\<close> event.
\<close>

theorem send_while_disconnected_counterexample:
  "isConnected (useEffect initial_client) = False
   \<and> map_option emitted (socket (sendUserMessage ''Where is the library?'' (useEffect initial_client)))
       = Some [(''message'', ''Where is the library?'')]"
  by (simp add: useEffect_def initial_client_def sendUserMessage_def io_def socket_on_def socket_emit_def
      registrations_def)

text \<open>
  Claim C6, amended. \<open>sendUserMessage\<close> never changes the log; it does nothing at
  all when the channel reference is absent, and when the reference is present it makes
  exactly one \<open>emit\<close> call of a \<open>message\<close> event with the text, whatever
  \<open>isConnected\<close> is.
\<close>

theorem sendUserMessage_guard:
  "messages (sendUserMessage txt c) = messages c
   \<and> (socket c = None \<longrightarrow> sendUserMessage txt c = c)
   \<and> (\<forall>ch. socket c = Some ch \<longrightarrow>
        sendUserMessage txt c = c\<lparr>socket := Some (ch\<lparr>emitted := emitted ch @ [(''message'', txt)]\<rparr>)\<rparr>)"
  by (auto simp: sendUserMessage_def socket_emit_def split: option.splits)

theorem sendUserMessage_guard_witness:
  "socket initial_client = None
   \<and> sendUserMessage ''Where is the library?'' initial_client = initial_client"
  using sendUserMessage_guard[of "''Where is the library?''" initial_client]
  by (simp add: initial_client_def)

subsection \<open>Teardown\<close>

text \<open>
  Claim C7. The cleanup of the mount effect removes the listeners of \<open>message\<close>,
  \<open>disconnect\<close>, \<open>connect_error\<close> and \<open>connect_timeout\<close> and closes the
  channel; the \<open>connect\<close> listener and both \<open>unexpected_error\<close> listeners stay
  registered.
\<close>

theorem cleanup_leaves_listeners:
  "cleanup (useEffect c)
     = Inr (c\<lparr>socket := Some
          \<lparr>listeners = [(''connect'', ConnectHandler),
                        (''unexpected_error'', UnexpectedErrorHandler),
                        (''unexpected_error'', UnexpectedErrorHandler)],
           active = False, emitted = []\<rparr>\<rparr>)"
  by (simp add: cleanup_def useEffect_def io_def socket_on_def socket_off_def socket_disconnect_def
      registrations_def)

section \<open>Properties of the catalogue search adapter\<close>

lemma truthy_JStr: "truthy v \<Longrightarrow> \<exists>s. v = JStr s \<and> s \<noteq> []"
  by (cases v) simp_all

lemma extractItemData_truthy: "truthy (extractItemData items name)"
  by (simp add: extractItemData_def js_or_def split: option.splits)

lemma extractSubjects_truthy: "truthy (extractSubjects items)"
  by (simp add: extractSubjects_def Let_def extractItemData_truthy split: option.splits)

text \<open>
  Claim C10. \<open>extractItemData\<close> always returns a non-empty string, never
  \<open>undefined\<close> or \<open>null\<close>: it is \<open>Not available\<close> when the list is not an array
  or is empty, when no item has the name, or when the first item of that name has falsy
  data, and it is that item's data otherwise. Hence the title, the author and the
  subjects of the display record of any record are non-empty strings.
\<close>

theorem extractItemData_total:
  "(\<exists>s. extractItemData items name = JStr s \<and> s \<noteq> [])
   \<and> (items = None \<or> items = Some [] \<longrightarrow> extractItemData items name = JStr ''Not available'')
   \<and> (\<forall>xs. items = Some xs \<and> name \<notin> Name ` set xs \<longrightarrow>
          extractItemData items name = JStr ''Not available'')
   \<and> (\<forall>xs i. items = Some xs \<and> find (\<lambda>i. Name i = name) xs = Some i \<and> \<not> truthy (Data i) \<longrightarrow>
          extractItemData items name = JStr ''Not available'')
   \<and> (\<forall>xs i. items = Some xs \<and> find (\<lambda>i. Name i = name) xs = Some i \<and> truthy (Data i) \<longrightarrow>
          extractItemData items name = Data i)
   \<and> (\<exists>d. transformToDisplayRecord (Some r) = Inr d
          \<and> (\<exists>s. title d = JStr s \<and> s \<noteq> [])
          \<and> (\<exists>s. author d = JStr s \<and> s \<noteq> [])
          \<and> (\<exists>s. subjects d = JStr s \<and> s \<noteq> []))"
proof -
  have defined: "\<exists>s. extractItemData items name = JStr s \<and> s \<noteq> []"
    by (rule truthy_JStr[OF extractItemData_truthy])
  have absent: "items = None \<or> items = Some [] \<longrightarrow> extractItemData items name = JStr ''Not available''"
    by (auto simp: extractItemData_def)
  have unnamed: "\<forall>xs. items = Some xs \<and> name \<notin> Name ` set xs \<longrightarrow>
          extractItemData items name = JStr ''Not available''"
  proof (intro allI impI)
    fix xs assume a: "items = Some xs \<and> name \<notin> Name ` set xs"
    then have "find (\<lambda>i. Name i = name) xs = None"
      by (auto simp: find_None_iff)
    with a show "extractItemData items name = JStr ''Not available''"
      by (simp add: extractItemData_def js_or_def)
  qed
  have falsy: "\<forall>xs i. items = Some xs \<and> find (\<lambda>i. Name i = name) xs = Some i \<and> \<not> truthy (Data i) \<longrightarrow>
          extractItemData items name = JStr ''Not available''"
    by (auto simp: extractItemData_def js_or_def)
  have found: "\<forall>xs i. items = Some xs \<and> find (\<lambda>i. Name i = name) xs = Some i \<and> truthy (Data i) \<longrightarrow>
          extractItemData items name = Data i"
    by (auto simp: extractItemData_def js_or_def)
  have display: "\<exists>d. transformToDisplayRecord (Some r) = Inr d
          \<and> (\<exists>s. title d = JStr s \<and> s \<noteq> [])
          \<and> (\<exists>s. author d = JStr s \<and> s \<noteq> [])
          \<and> (\<exists>s. subjects d = JStr s \<and> s \<noteq> [])"
    by (simp add: transformToDisplayRecord_def Let_def
        truthy_JStr[OF extractItemData_truthy] truthy_JStr[OF extractSubjects_truthy])
  show ?thesis using defined absent unnamed falsy found display by blast
qed

theorem extractItemData_total_witness:
  "find (\<lambda>i. Name i = ''Title'')
      [\<lparr>Name = ''Author'', Data = JStr ''Knuth''\<rparr>, \<lparr>Name = ''Title'', Data = JStr ''TAOCP''\<rparr>]
     = Some \<lparr>Name = ''Title'', Data = JStr ''TAOCP''\<rparr>
   \<and> truthy (JStr ''TAOCP'')
   \<and> extractItemData
       (Some [\<lparr>Name = ''Author'', Data = JStr ''Knuth''\<rparr>, \<lparr>Name = ''Title'', Data = JStr ''TAOCP''\<rparr>])
       ''Title'' = JStr ''TAOCP''
   \<and> ''Subject'' \<notin> Name ` set [\<lparr>Name = ''Author'', Data = JStr ''Knuth''\<rparr>]
   \<and> extractItemData (Some [\<lparr>Name = ''Author'', Data = JStr ''Knuth''\<rparr>]) ''Subject''
       = JStr ''Not available''
   \<and> extractItemData None ''Title'' = JStr ''Not available''"
proof -
  let ?xs = "[\<lparr>Name = ''Author'', Data = JStr ''Knuth''\<rparr>, \<lparr>Name = ''Title'', Data = JStr ''TAOCP''\<rparr>]"
  have f: "find (\<lambda>i. Name i = ''Title'') ?xs = Some \<lparr>Name = ''Title'', Data = JStr ''TAOCP''\<rparr>"
    by simp
  have n: "''Subject'' \<notin> Name ` set [\<lparr>Name = ''Author'', Data = JStr ''Knuth''\<rparr>]"
    by simp
  show ?thesis
    using extractItemData_total[of "Some ?xs" "''Title''"]
      extractItemData_total[of "Some [\<lparr>Name = ''Author'', Data = JStr ''Knuth''\<rparr>]" "''Subject''"]
      extractItemData_total[of None "''Title''"] f n
    by simp
qed

lemma promise_all_length: "promise_all ps = Inr xs \<Longrightarrow> length xs = length ps"
  by (induction ps arbitrary: xs rule: promise_all.induct) (auto split: sum.splits)

text \<open>
  Claim C8. Whatever the external calls do, \<open>searchForBook\<close> either throws or returns
  a non-empty list, which holds one display record per record of the response. When the
  search succeeds with no record it throws (with the message \<open>No results found\<close> when
  the other calls succeed); when the search fails it throws (with the message
  \<open>No results found due to an error.\<close> when it resolved to a failure); when the
  search call itself is rejected it throws.
\<close>

theorem searchForBook_nonempty_or_throws:
  "(\<forall>data. searchForBook api query sessionToken numOfBooks = Inr data \<longrightarrow>
       data \<noteq> []
       \<and> (\<exists>response. performSearch api sessionToken query numOfBooks = Inr (Right response)
            \<and> promise_all (map transformToDisplayRecord (Records response)) = Inr data
            \<and> length data = length (Records response)))
   \<and> (\<forall>response. performSearch api sessionToken query numOfBooks = Inr (Right response)
         \<and> Records response = [] \<longrightarrow>
         (\<exists>e. searchForBook api query sessionToken numOfBooks = Inl e)
         \<and> (getEnvironmentVariables api = Inr () \<and> endSession api sessionToken = Inr () \<longrightarrow>
              searchForBook api query sessionToken numOfBooks = Inl (Error ''No results found'')))
   \<and> (\<forall>e. performSearch api sessionToken query numOfBooks = Inr (Left e) \<longrightarrow>
         (\<exists>e'. searchForBook api query sessionToken numOfBooks = Inl e')
         \<and> (getEnvironmentVariables api = Inr () \<longrightarrow>
              searchForBook api query sessionToken numOfBooks
                = Inl (Error ''No results found due to an error.'')))
   \<and> (\<forall>e. performSearch api sessionToken query numOfBooks = Inl e \<longrightarrow>
         (\<exists>e'. searchForBook api query sessionToken numOfBooks = Inl e'))"
proof -
  have returns: "\<forall>data. searchForBook api query sessionToken numOfBooks = Inr data \<longrightarrow>
       data \<noteq> []
       \<and> (\<exists>response. performSearch api sessionToken query numOfBooks = Inr (Right response)
            \<and> promise_all (map transformToDisplayRecord (Records response)) = Inr data
            \<and> length data = length (Records response))"
    by (auto simp: searchForBook_def queryEbscoApi_def dest: promise_all_length
        split: sum.splits either.splits if_splits)
  have empty: "\<forall>response. performSearch api sessionToken query numOfBooks = Inr (Right response)
         \<and> Records response = [] \<longrightarrow>
         (\<exists>e. searchForBook api query sessionToken numOfBooks = Inl e)
         \<and> (getEnvironmentVariables api = Inr () \<and> endSession api sessionToken = Inr () \<longrightarrow>
              searchForBook api query sessionToken numOfBooks = Inl (Error ''No results found''))"
    by (auto simp: searchForBook_def queryEbscoApi_def split: sum.splits either.splits)
  have failed: "\<forall>e. performSearch api sessionToken query numOfBooks = Inr (Left e) \<longrightarrow>
         (\<exists>e'. searchForBook api query sessionToken numOfBooks = Inl e')
         \<and> (getEnvironmentVariables api = Inr () \<longrightarrow>
              searchForBook api query sessionToken numOfBooks
                = Inl (Error ''No results found due to an error.''))"
    by (auto simp: searchForBook_def queryEbscoApi_def split: sum.splits either.splits)
  have rejected: "\<forall>e. performSearch api sessionToken query numOfBooks = Inl e \<longrightarrow>
         (\<exists>e'. searchForBook api query sessionToken numOfBooks = Inl e')"
    by (auto simp: searchForBook_def queryEbscoApi_def split: sum.splits either.splits)
  show ?thesis using returns empty failed rejected by blast
qed

theorem searchForBook_nonempty_or_throws_witness:
  "performSearch
      \<lparr>getEnvironmentVariables = Inr (),
       performSearch = (\<lambda>t q n. Inr (Right \<lparr>Records = []\<rparr>)),
       endSession = (\<lambda>t. Inr ())\<rparr> ''token'' ''dune'' 3 = Inr (Right \<lparr>Records = []\<rparr>)
   \<and> Records \<lparr>Records = []\<rparr> = []
   \<and> searchForBook
      \<lparr>getEnvironmentVariables = Inr (),
       performSearch = (\<lambda>t q n. Inr (Right \<lparr>Records = []\<rparr>)),
       endSession = (\<lambda>t. Inr ())\<rparr> ''dune'' ''token'' 3 = Inl (Error ''No results found'')"
  using searchForBook_nonempty_or_throws
    [of "\<lparr>getEnvironmentVariables = Inr (),
         performSearch = (\<lambda>t q n. Inr (Right \<lparr>Records = []\<rparr>)),
         endSession = (\<lambda>t. Inr ())\<rparr>" "''dune''" "''token''" 3]
  by simp

section \<open>Properties of the cancel-reservation tool\<close>

text \<open>
  Claim C9, as stated, fails for a present bookingID: when the HTTP call fails,
  \<open>toolRunForLlm\<close> does not return a text, it rethrows the error of \<open>run\<close>.
\<close>

theorem cancel_api_failure_counterexample:
  "toolRunForLlm
      \<lparr>CANCEL_URL = ''https://libcal.example/cancel'', accessToken = ''tok'',
       axios_post = (\<lambda>url auth. Inl (Rejected ''AxiosError: Request failed with status code 500''))\<rparr>
      (JStr ''cs_123'')
   = ([''https://libcal.example/cancel/cs_123''],
      Inl (Error ''AxiosError: Request failed with status code 500''))"
  by (simp add: toolRunForLlm_def run_def Let_def)

text \<open>
  Claim C9, amended. For a bookingID that is \<open>null\<close>, \<open>undefined\<close> or one of
  the strings \<open>null\<close> and \<open>undefined\<close>, \<open>toolRunForLlm\<close> makes no HTTP call and
  returns the text asking for the bookingID. For any other bookingID it makes one POST
  to the cancel URL of that booking and, when the call answers with a non-empty array,
  returns the success text or the failure text with the error of the first entry; when
  the call fails or answers with an empty array it throws.
\<close>

theorem toolRunForLlm_outcomes:
  "(b = JNull \<or> b = JUndefined \<or> b = JStr ''null'' \<or> b = JStr ''undefined'' \<longrightarrow>
      toolRunForLlm svc b = ([], Inr missing_bookingID))
   \<and> (\<forall>s. b = JStr s \<and> s \<noteq> ''null'' \<and> s \<noteq> ''undefined'' \<longrightarrow>
        fst (toolRunForLlm svc b) = [CANCEL_URL svc @ ''/'' @ s]
        \<and> snd (toolRunForLlm svc b) =
            (case axios_post svc (CANCEL_URL svc @ ''/'' @ s) (''Bearer '' @ accessToken svc) of
               Inl e \<Rightarrow> Inl (Error (error_to_string e))
             | Inr [] \<Rightarrow> Inl (Error (error_to_string (TypeError ''cancelled'')))
             | Inr (first # rest) \<Rightarrow>
                 if cancelled first
                 then Inr (''Room reservation with ID: '' @ s @ '' is cancelled successfully''
                           @ [CHR 0x0A])
                 else Inr (''Room reservation with ID: '' @ s
                           @ '' is not cancelled successfully. Error message: ''
                           @ js_to_string (cancel_error first) @ [CHR 0x0A])))"
proof -
  have missing: "b = JNull \<or> b = JUndefined \<or> b = JStr ''null'' \<or> b = JStr ''undefined'' \<longrightarrow>
      toolRunForLlm svc b = ([], Inr missing_bookingID)"
    by (auto simp: toolRunForLlm_def)
  have present: "\<forall>s. b = JStr s \<and> s \<noteq> ''null'' \<and> s \<noteq> ''undefined'' \<longrightarrow>
        fst (toolRunForLlm svc b) = [CANCEL_URL svc @ ''/'' @ s]
        \<and> snd (toolRunForLlm svc b) =
            (case axios_post svc (CANCEL_URL svc @ ''/'' @ s) (''Bearer '' @ accessToken svc) of
               Inl e \<Rightarrow> Inl (Error (error_to_string e))
             | Inr [] \<Rightarrow> Inl (Error (error_to_string (TypeError ''cancelled'')))
             | Inr (first # rest) \<Rightarrow>
                 if cancelled first
                 then Inr (''Room reservation with ID: '' @ s @ '' is cancelled successfully''
                           @ [CHR 0x0A])
                 else Inr (''Room reservation with ID: '' @ s
                           @ '' is not cancelled successfully. Error message: ''
                           @ js_to_string (cancel_error first) @ [CHR 0x0A]))"
    by (auto simp: toolRunForLlm_def run_def Let_def split: sum.splits list.splits)
  show ?thesis using missing present by blast
qed

theorem toolRunForLlm_outcomes_witness:
  "toolRunForLlm
      \<lparr>CANCEL_URL = ''https://libcal.example/cancel'', accessToken = ''tok'',
       axios_post = (\<lambda>url auth. Inr [\<lparr>booking_id = ''cs_123'', cancelled = False,
                                       cancel_error = JStr ''booking not found''\<rparr>])\<rparr>
      (JStr ''null'') = ([], Inr missing_bookingID)
   \<and> ''cs_123'' \<noteq> ''null'' \<and> ''cs_123'' \<noteq> ''undefined''
   \<and> snd (toolRunForLlm
      \<lparr>CANCEL_URL = ''https://libcal.example/cancel'', accessToken = ''tok'',
       axios_post = (\<lambda>url auth. Inr [\<lparr>booking_id = ''cs_123'', cancelled = False,
                                       cancel_error = JStr ''booking not found''\<rparr>])\<rparr>
      (JStr ''cs_123''))
     = Inr (''Room reservation with ID: cs_123 is not cancelled successfully. Error message: booking not found''
            @ [CHR 0x0A])"
  using toolRunForLlm_outcomes
    [of "JStr ''null''"
        "\<lparr>CANCEL_URL = ''https://libcal.example/cancel'', accessToken = ''tok'',
          axios_post = (\<lambda>url auth. Inr [\<lparr>booking_id = ''cs_123'', cancelled = False,
                                          cancel_error = JStr ''booking not found''\<rparr>])\<rparr>"]
    toolRunForLlm_outcomes
    [of "JStr ''cs_123''"
        "\<lparr>CANCEL_URL = ''https://libcal.example/cancel'', accessToken = ''tok'',
          axios_post = (\<lambda>url auth. Inr [\<lparr>booking_id = ''cs_123'', cancelled = False,
                                          cancel_error = JStr ''booking not found''\<rparr>])\<rparr>"]
  by simp

end
